theory Spec2Isabelle
  imports Main "HOL-Library.Word"
begin

unbundle bit_operations_syntax

section \<open>Task model and schemas (backend/app/models/task.py)\<close>

text \<open>
  A naive UTC \<open>datetime\<close> is represented by its number of microseconds since the epoch,
  the resolution of Python's \<open>datetime\<close>. Every call of \<open>datetime.utcnow()\<close> in the
  source is a reading of the wall clock; each such reading is an explicit argument of the
  function that performs it.
\<close>

type_synonym datetime = int

text \<open>
  \<open>TaskBase\<close> carries the three user-editable fields; \<open>TaskCreate\<close> adds nothing to
  it, and \<open>Task\<close> is the table row with the primary key, the owner and both timestamps.
  The primary key is \<open>Optional[int]\<close>: it is \<open>None\<close> until the row has been inserted.
\<close>

record TaskBase =
  title :: string
  description :: "string option"
  completed :: bool

record Task = TaskBase +
  id' :: "int option"
  user_id :: string
  created_at :: datetime
  updated_at :: datetime

type_synonym TaskCreate = TaskBase

text \<open>
  Construction of a \<open>TaskCreate\<close> from a request body: \<open>title\<close> is required, the
  other two fields are optional in the body and take the declared defaults
  (\<open>description = None\<close>, \<open>completed = False\<close>) when the body omits them.
\<close>

definition TaskCreate :: "string \<Rightarrow> string option \<Rightarrow> bool option \<Rightarrow> TaskCreate" where
  "TaskCreate title_arg description_arg completed_arg =
     \<lparr>title = title_arg,
      description = description_arg,
      completed = (case completed_arg of None \<Rightarrow> False | Some b \<Rightarrow> b)\<rparr>"

text \<open>
  \<open>TaskUpdate\<close> declares all three fields as \<open>Optional\<close> with default \<open>None\<close>.
  Pydantic remembers which fields the body supplied, so a field is either unset or
  supplied with a value that may itself be \<open>null\<close>.
\<close>

datatype 'a supplied = Unset | Supplied "'a option"

record TaskUpdate =
  title_upd :: "string supplied"
  description_upd :: "string supplied"
  completed_upd :: "bool supplied"

text \<open>
  One entry of the dictionary \<open>task_update.model_dump(exclude_unset=True)\<close>: the field
  name together with the supplied value.
\<close>

datatype field_value =
    Title "string option"
  | Description "string option"
  | Completed "bool option"

definition model_dump_exclude_unset :: "TaskUpdate \<Rightarrow> field_value list" where
  "model_dump_exclude_unset u =
     (case title_upd u of Unset \<Rightarrow> [] | Supplied v \<Rightarrow> [Title v]) @
     (case description_upd u of Unset \<Rightarrow> [] | Supplied v \<Rightarrow> [Description v]) @
     (case completed_upd u of Unset \<Rightarrow> [] | Supplied v \<Rightarrow> [Completed v])"

section \<open>Errors and the database session\<close>

text \<open>
  The handlers raise \<open>HTTPException\<close> with a status code and a detail message. The only
  other exception that can escape a handler is the \<open>IntegrityError\<close> of the database
  when a row violates a \<open>NOT NULL\<close> column (\<open>title: str\<close> and \<open>completed: bool\<close> are
  not \<open>Optional\<close> in the table model); the framework answers an unhandled exception
  with status 500.
\<close>

datatype exn =
    HTTPException (status_code: nat) (detail: string)
  | IntegrityError

fun http_status :: "exn \<Rightarrow> nat" where
  "http_status (HTTPException code _) = code"
| "http_status IntegrityError = 500"

text \<open>
  The status of a response: the route's success code (200 unless the decorator says
  otherwise) when the handler returns, the exception's status when it raises.
\<close>

definition response_status :: "nat \<Rightarrow> exn + 'a \<Rightarrow> nat" where
  "response_status success r = (case r of Inl e \<Rightarrow> http_status e | Inr _ \<Rightarrow> success)"

text \<open>
  The session stands for the \<open>tasks\<close> table as seen through one request's transaction:
  the rows in insertion order and the next value of the auto-incrementing primary key.
\<close>

record session =
  table :: "Task list"
  next_id :: int

text \<open>\<open>session.get(Task, task_id)\<close>: the row with that primary key, or \<open>None\<close>.\<close>

definition session_get :: "session \<Rightarrow> int \<Rightarrow> Task option" where
  "session_get s k = find (\<lambda>r. id' r = Some k) (table s)"

text \<open>
  \<open>session.add; session.commit; session.refresh\<close> for a new object: the row is
  inserted under the next key, and the refreshed object carries that key.
\<close>

definition session_insert :: "session \<Rightarrow> Task \<Rightarrow> Task \<times> session" where
  "session_insert s t =
     (let t' = t\<lparr>id' := Some (next_id s)\<rparr>
      in (t', s\<lparr>table := table s @ [t'], next_id := next_id s + 1\<rparr>))"

text \<open>The same three calls for an object loaded from the session: its row is rewritten.\<close>

definition session_update :: "session \<Rightarrow> Task \<Rightarrow> session" where
  "session_update s t = s\<lparr>table := map (\<lambda>r. if id' r = id' t then t else r) (table s)\<rparr>"

text \<open>\<open>session.delete; session.commit\<close>: the row of the object is removed.\<close>

definition session_delete :: "session \<Rightarrow> Task \<Rightarrow> session" where
  "session_delete s t = s\<lparr>table := filter (\<lambda>r. id' r \<noteq> id' t) (table s)\<rparr>"

section \<open>Task CRUD endpoints (backend/app/routes/tasks.py)\<close>

text \<open>
  Each handler receives the path parameter \<open>user_id\<close>, the identity
  \<open>current_user_id\<close> that the authentication dependency extracted from the token, and
  the session. It returns the raised exception or the returned value, together with the
  session after the request.
\<close>

definition list_tasks :: "string \<Rightarrow> string \<Rightarrow> session \<Rightarrow> exn + Task list" where
  "list_tasks user_id' current_user_id s =
     (if user_id' \<noteq> current_user_id
      then Inl (HTTPException 403 ''Unauthorized access to user's tasks'')
      else Inr (filter (\<lambda>r. user_id r = user_id') (table s)))"

definition create_task ::
  "string \<Rightarrow> TaskCreate \<Rightarrow> string \<Rightarrow> datetime \<Rightarrow> datetime \<Rightarrow> session \<Rightarrow> (exn + Task) \<times> session"
where
  "create_task user_id' task current_user_id now_created now_updated s =
     (if user_id' \<noteq> current_user_id
      then (Inl (HTTPException 403 ''Unauthorized access''), s)
      else
        let db_task = \<lparr>title = title task, description = description task,
                       completed = completed task,
                       id' = None, user_id = user_id',
                       created_at = now_created, updated_at = now_updated\<rparr>;
            (db_task', s') = session_insert s db_task
        in (Inr db_task', s'))"

definition get_task :: "string \<Rightarrow> int \<Rightarrow> string \<Rightarrow> session \<Rightarrow> exn + Task" where
  "get_task user_id' task_id current_user_id s =
     (if user_id' \<noteq> current_user_id
      then Inl (HTTPException 403 ''Unauthorized access'')
      else case session_get s task_id of
             None \<Rightarrow> Inl (HTTPException 404 ''Task not found'')
           | Some task \<Rightarrow>
               if user_id task \<noteq> user_id'
               then Inl (HTTPException 404 ''Task not found'')
               else Inr task)"

text \<open>
  \<open>setattr(db_task, field, value)\<close>. The table model does not validate assignments, so
  a \<open>None\<close> assigned to \<open>title\<close> or \<open>completed\<close> stays in the object until
  \<open>session.commit()\<close> sends it to a \<open>NOT NULL\<close> column and the database raises.
  Nothing between the assignment and the commit can observe the object, so the model
  raises at the assignment.
\<close>

fun setattr :: "Task \<Rightarrow> field_value \<Rightarrow> exn + Task" where
  "setattr t (Title (Some v)) = Inr (t\<lparr>title := v\<rparr>)"
| "setattr t (Title None) = Inl IntegrityError"
| "setattr t (Description v) = Inr (t\<lparr>description := v\<rparr>)"
| "setattr t (Completed (Some v)) = Inr (t\<lparr>completed := v\<rparr>)"
| "setattr t (Completed None) = Inl IntegrityError"

text \<open>The loop \<open>for field, value in update_data.items(): setattr(db_task, field, value)\<close>.\<close>

fun setattr_all :: "Task \<Rightarrow> field_value list \<Rightarrow> exn + Task" where
  "setattr_all t [] = Inr t"
| "setattr_all t (fv # fvs) =
     (case setattr t fv of Inl e \<Rightarrow> Inl e | Inr t' \<Rightarrow> setattr_all t' fvs)"

definition update_task ::
  "string \<Rightarrow> int \<Rightarrow> TaskUpdate \<Rightarrow> string \<Rightarrow> datetime \<Rightarrow> session \<Rightarrow> (exn + Task) \<times> session"
where
  "update_task user_id' task_id task_update current_user_id now s =
     (if user_id' \<noteq> current_user_id
      then (Inl (HTTPException 403 ''Unauthorized access''), s)
      else case session_get s task_id of
             None \<Rightarrow> (Inl (HTTPException 404 ''Task not found''), s)
           | Some db_task \<Rightarrow>
               if user_id db_task \<noteq> user_id'
               then (Inl (HTTPException 404 ''Task not found''), s)
               else
                 let update_data = model_dump_exclude_unset task_update
                 in (case setattr_all db_task update_data of
                       Inl e \<Rightarrow> (Inl e, s)
                     | Inr db_task1 \<Rightarrow>
                         let db_task2 = db_task1\<lparr>updated_at := now\<rparr>
                         in (Inr db_task2, session_update s db_task2)))"

definition delete_task :: "string \<Rightarrow> int \<Rightarrow> string \<Rightarrow> session \<Rightarrow> (exn + unit) \<times> session" where
  "delete_task user_id' task_id current_user_id s =
     (if user_id' \<noteq> current_user_id
      then (Inl (HTTPException 403 ''Unauthorized access''), s)
      else case session_get s task_id of
             None \<Rightarrow> (Inl (HTTPException 404 ''Task not found''), s)
           | Some task \<Rightarrow>
               if user_id task \<noteq> user_id'
               then (Inl (HTTPException 404 ''Task not found''), s)
               else (Inr (), session_delete s task))"

definition toggle_complete ::
  "string \<Rightarrow> int \<Rightarrow> string \<Rightarrow> datetime \<Rightarrow> session \<Rightarrow> (exn + Task) \<times> session"
where
  "toggle_complete user_id' task_id current_user_id now s =
     (if user_id' \<noteq> current_user_id
      then (Inl (HTTPException 403 ''Unauthorized access''), s)
      else case session_get s task_id of
             None \<Rightarrow> (Inl (HTTPException 404 ''Task not found''), s)
           | Some db_task \<Rightarrow>
               if user_id db_task \<noteq> user_id'
               then (Inl (HTTPException 404 ''Task not found''), s)
               else
                 let db_task' = db_task\<lparr>completed := \<not> completed db_task, updated_at := now\<rparr>
                 in (Inr db_task', session_update s db_task'))"

section \<open>Password hashing (backend/app/utils/security.py)\<close>

text \<open>
  A Python \<open>str\<close> is a sequence of Unicode code points and a \<open>bytes\<close> object a sequence
  of octets. The encodings between them matter here, so both are kept apart.
\<close>

type_synonym byte = "8 word"
type_synonym bytes = "byte list"
type_synonym str = "nat list"


text \<open>The code points of a text written with ASCII characters.\<close>

definition str :: "string \<Rightarrow> str" where
  "str cs = map of_char cs"

text \<open>
  The exceptions that the body of \<open>verify_password\<close> can raise. \<open>binascii.Error\<close>,
  \<open>UnicodeEncodeError\<close> and \<open>UnicodeDecodeError\<close> are subclasses of \<open>ValueError\<close>.
\<close>

datatype exception =
    ValueError
  | BinasciiError
  | UnicodeEncodeError
  | UnicodeDecodeError
  | IndexError

fun isinstance_ValueError :: "exception \<Rightarrow> bool" where
  "isinstance_ValueError IndexError = False"
| "isinstance_ValueError _ = True"

subsection \<open>The codecs of \<open>str.encode\<close> and \<open>bytes.decode\<close>\<close>

text \<open>
  \<open>str.encode('utf-8')\<close>: one to four octets per code point; a surrogate
  (\<open>U+D800\<close> to \<open>U+DFFF\<close>) cannot be encoded. Code points end at \<open>U+10FFFF\<close>.
\<close>

definition utf8_code_point :: "nat \<Rightarrow> exception + bytes" where
  "utf8_code_point c =
     (if c < 0x80 then Inr [of_nat c]
      else if c < 0x800 then Inr [of_nat (0xC0 + c div 64), of_nat (0x80 + c mod 64)]
      else if 0xD800 \<le> c \<and> c \<le> 0xDFFF then Inl UnicodeEncodeError
      else if c < 0x10000 then
        Inr [of_nat (0xE0 + c div 4096), of_nat (0x80 + c div 64 mod 64),
             of_nat (0x80 + c mod 64)]
      else
        Inr [of_nat (0xF0 + c div 262144 mod 8), of_nat (0x80 + c div 4096 mod 64),
             of_nat (0x80 + c div 64 mod 64), of_nat (0x80 + c mod 64)])"

fun encode_utf8 :: "str \<Rightarrow> exception + bytes" where
  "encode_utf8 [] = Inr []"
| "encode_utf8 (c # cs) =
     (case utf8_code_point c of
        Inl e \<Rightarrow> Inl e
      | Inr bs \<Rightarrow> (case encode_utf8 cs of Inl e \<Rightarrow> Inl e | Inr rest \<Rightarrow> Inr (bs @ rest)))"

text \<open>\<open>str.encode('ascii')\<close> and \<open>bytes.decode('ascii')\<close>.\<close>

fun encode_ascii :: "str \<Rightarrow> exception + bytes" where
  "encode_ascii [] = Inr []"
| "encode_ascii (c # cs) =
     (if c < 128
      then (case encode_ascii cs of Inl e \<Rightarrow> Inl e | Inr rest \<Rightarrow> Inr (of_nat c # rest))
      else Inl UnicodeEncodeError)"


subsection \<open>The \<open>base64\<close> module\<close>


definition BASE64_PAD :: byte where
  "BASE64_PAD = 0x3D"



text \<open>
  The decoding table: the value of a character of the alphabet, and 64 for every other
  octet.
\<close>

definition table_a2b_base64 :: "byte \<Rightarrow> byte" where
  "table_a2b_base64 c =
     (if 0x41 \<le> c \<and> c \<le> 0x5A then c - 0x41
      else if 0x61 \<le> c \<and> c \<le> 0x7A then c - 0x61 + 26
      else if 0x30 \<le> c \<and> c \<le> 0x39 then c - 0x30 + 52
      else if c = 0x2B then 62
      else if c = 0x2F then 63
      else 64)"

text \<open>
  The loop of \<open>binascii.a2b_base64\<close> in its default, non-strict mode. It walks over the
  input with the position \<open>quad_pos\<close> inside the current group of four characters, the
  bits \<open>leftchar\<close> left over from the previous character and the number \<open>pads\<close> of
  padding characters just seen. Octets outside the alphabet are skipped; a padding
  character that completes a group ends the decoding; input that ends inside a group
  raises \<open>binascii.Error\<close>.
\<close>

fun a2b_base64_loop :: "bytes \<Rightarrow> nat \<Rightarrow> byte \<Rightarrow> nat \<Rightarrow> bytes \<Rightarrow> exception + bytes" where
  "a2b_base64_loop [] quad_pos leftchar pads bin_data =
     (if quad_pos \<noteq> 0 then Inl BinasciiError else Inr bin_data)"
| "a2b_base64_loop (this_ch # rest) quad_pos leftchar pads bin_data =
     (if this_ch = BASE64_PAD then
        (if quad_pos \<ge> 2 \<and> quad_pos + (pads + 1) \<ge> 4 then Inr bin_data
         else a2b_base64_loop rest quad_pos leftchar
                (if quad_pos \<ge> 2 then pads + 1 else pads) bin_data)
      else
        let v = table_a2b_base64 this_ch in
        if v \<ge> 64 then a2b_base64_loop rest quad_pos leftchar pads bin_data
        else if quad_pos = 0 then a2b_base64_loop rest 1 v 0 bin_data
        else if quad_pos = 1 then
          a2b_base64_loop rest 2 (v AND 0x0F) 0
            (bin_data @ [push_bit 2 leftchar OR drop_bit 4 v])
        else if quad_pos = 2 then
          a2b_base64_loop rest 3 (v AND 0x03) 0
            (bin_data @ [push_bit 4 leftchar OR drop_bit 2 v])
        else
          a2b_base64_loop rest 0 0 0 (bin_data @ [push_bit 6 leftchar OR v]))"

definition a2b_base64 :: "bytes \<Rightarrow> exception + bytes" where
  "a2b_base64 ascii_data = a2b_base64_loop ascii_data 0 0 0 []"


definition b64decode :: "str \<Rightarrow> exception + bytes" where
  "b64decode s =
     (case encode_ascii s of
        Inl _ \<Rightarrow> Inl ValueError
      | Inr ascii_data \<Rightarrow> a2b_base64 ascii_data)"

subsection \<open>\<open>str.split\<close>\<close>

text \<open>
  \<open>s.split(sep)\<close> for a separator of one character: the pieces between the
  occurrences of the separator, one more than there are occurrences.
\<close>

fun split :: "str \<Rightarrow> nat \<Rightarrow> str list" where
  "split [] sep = [[]]"
| "split (c # cs) sep =
     (if c = sep then [] # split cs sep
      else (case split cs sep of
              [] \<Rightarrow> [[c]]
            | piece # pieces \<Rightarrow> (c # piece) # pieces))"

subsection \<open>\<open>hash_password\<close> and \<open>verify_password\<close>\<close>

text \<open>
  \<open>hashlib.pbkdf2_hmac(hash_name, password, salt, iterations)\<close> is a parameter of the
  model: any function of its four arguments. The salt that \<open>os.urandom(32)\<close> returns is
  an argument of \<open>hash_password\<close>.
\<close>

type_synonym pbkdf2_hmac = "string \<Rightarrow> bytes \<Rightarrow> bytes \<Rightarrow> nat \<Rightarrow> bytes"


text \<open>The body of the \<open>try\<close> block of \<open>verify_password\<close>.\<close>

definition verify_password_body :: "pbkdf2_hmac \<Rightarrow> str \<Rightarrow> str \<Rightarrow> exception + bool" where
  "verify_password_body pbkdf2_hmac plain_password hashed_password =
     (case split hashed_password 0x24 of
        [salt_b64, hash_b64] \<Rightarrow>
          (case b64decode salt_b64 of
             Inl e \<Rightarrow> Inl e
           | Inr salt \<Rightarrow>
               (case b64decode hash_b64 of
                  Inl e \<Rightarrow> Inl e
                | Inr stored_hash \<Rightarrow>
                    (case encode_utf8 plain_password of
                       Inl e \<Rightarrow> Inl e
                     | Inr password_bytes \<Rightarrow>
                         let pwd_hash = pbkdf2_hmac ''sha256'' password_bytes salt 100000
                         in Inr (pwd_hash = stored_hash))))
      | _ \<Rightarrow> Inl ValueError)"

text \<open>
  The whole function: \<open>except (ValueError, IndexError): return False\<close>; any other
  exception would propagate.
\<close>

definition verify_password :: "pbkdf2_hmac \<Rightarrow> str \<Rightarrow> str \<Rightarrow> exception + bool" where
  "verify_password pbkdf2_hmac plain_password hashed_password =
     (case verify_password_body pbkdf2_hmac plain_password hashed_password of
        Inr result \<Rightarrow> Inr result
      | Inl e \<Rightarrow> if isinstance_ValueError e \<or> e = IndexError then Inr False else Inl e)"

section \<open>Session tokens (backend/app/routes/auth.py, backend/app/middleware/auth.py)\<close>

subsection \<open>The \<open>jwt\<close> library\<close>












subsection \<open>\<open>create_jwt_token\<close> and \<open>get_current_user_id\<close>\<close>



section \<open>Example data\<close>

text \<open>Two users with one task each, and an empty table.\<close>

definition alice_task :: Task where
  "alice_task = \<lparr>title = ''write report'', description = None, completed = False,
     id' = Some 1, user_id = ''alice'', created_at = 100, updated_at = 100\<rparr>"

definition bob_task :: Task where
  "bob_task = \<lparr>title = ''buy milk'', description = Some ''2 litres'', completed = False,
     id' = Some 2, user_id = ''bob'', created_at = 200, updated_at = 250\<rparr>"

definition two_users :: session where
  "two_users = \<lparr>table = [alice_task, bob_task], next_id = 3\<rparr>"

definition no_tasks :: session where
  "no_tasks = \<lparr>table = [], next_id = 1\<rparr>"

text \<open>
  A stand-in for the key derivation function in examples: it has no collisions at all.
\<close>

definition toy_kdf :: pbkdf2_hmac where
  "toy_kdf hash_name password salt iterations = salt @ password"


section \<open>Properties of the session operations\<close>

lemma session_get_id: "session_get s k = Some t \<Longrightarrow> id' t = Some k"
  by (auto simp: session_get_def find_Some_iff)

lemma find_map_replace:
  "find (\<lambda>r. id' r = Some k) rs = Some t \<Longrightarrow> id' t' = Some k \<Longrightarrow>
   find (\<lambda>r. id' r = Some k) (map (\<lambda>r. if id' r = Some k then t' else r) rs) = Some t'"
  by (induction rs) (auto split: if_splits)


lemma session_get_update:
  assumes "session_get s k = Some t" and "id' t' = id' t"
  shows "session_get (session_update s t') k = Some t'"
proof -
  have "id' t' = Some k"
    using assms session_get_id by simp
  with assms(1) show ?thesis
    by (simp add: session_get_def session_update_def find_map_replace)
qed


lemma two_users_get [simp]:
  "session_get two_users 1 = Some alice_task" "session_get two_users 2 = Some bob_task"
  by (simp_all add: session_get_def two_users_def alice_task_def bob_task_def)

section \<open>Properties of the update loop\<close>

lemma setattr_no_http: "setattr t fv = Inl e \<Longrightarrow> e = IntegrityError"
  by (cases "(t, fv)" rule: setattr.cases) auto

lemma setattr_all_no_http: "setattr_all t fvs = Inl e \<Longrightarrow> e = IntegrityError"
  by (induction fvs arbitrary: t) (auto split: sum.splits dest: setattr_no_http)

lemma setattr_user_id: "setattr t fv = Inr t' \<Longrightarrow> user_id t' = user_id t"
  by (cases "(t, fv)" rule: setattr.cases) auto

lemma setattr_all_user_id: "setattr_all t fvs = Inr t' \<Longrightarrow> user_id t' = user_id t"
  by (induction fvs arbitrary: t) (auto split: sum.splits dest: setattr_user_id)


section \<open>Properties of the task endpoints\<close>

text \<open>
  Claim C1. The claim: an authenticated \<open>POST /api/{user_id}/tasks\<close> whose title is the
  empty string is answered with 422 and stores nothing. \<open>TaskCreate\<close> declares
  \<open>title: str\<close> with no length constraint and the handler does not look at the title, so
  the request below (the body of the repository's own end-to-end test
  ``Create Task - Empty Title (Should Fail)'', which expects 422) is answered with 201 and
  a row with the empty title is stored.
\<close>

theorem create_task_empty_title_accepted:
  "create_task ''alice'' (TaskCreate '''' (Some ''No title'') None) ''alice'' 300 301 no_tasks =
     (Inr \<lparr>title = '''', description = Some ''No title'', completed = False,
            id' = Some 1, user_id = ''alice'', created_at = 300, updated_at = 301\<rparr>,
      \<lparr>table = [\<lparr>title = '''', description = Some ''No title'', completed = False,
            id' = Some 1, user_id = ''alice'', created_at = 300, updated_at = 301\<rparr>],
       next_id = 2\<rparr>) \<and>
   response_status 201
     (fst (create_task ''alice'' (TaskCreate '''' (Some ''No title'') None) ''alice'' 300 301
        no_tasks)) = 201"
  by (simp add: create_task_def TaskCreate_def session_insert_def no_tasks_def response_status_def Let_def)

text \<open>
  Claim C2. When the token's subject equals the path user \<open>U\<close> and the task exists but
  belongs to another user, \<open>GET /api/{U}/tasks/{id}\<close> raises 404 ``Task not found'':
  neither 403 nor the task is returned.
\<close>

theorem get_task_foreign_owner_not_found:
  assumes "session_get s task_id = Some t" and "user_id t \<noteq> U"
  shows "get_task U task_id U s = Inl (HTTPException 404 ''Task not found'') \<and>
         response_status 200 (get_task U task_id U s) = 404"
  using assms by (simp add: get_task_def response_status_def)

theorem get_task_foreign_owner_not_found_witness:
  "session_get two_users 2 = Some bob_task \<and> user_id bob_task \<noteq> ''alice'' \<and>
   get_task ''alice'' 2 ''alice'' two_users = Inl (HTTPException 404 ''Task not found'') \<and>
   response_status 200 (get_task ''alice'' 2 ''alice'' two_users) = 404"
proof -
  have g: "session_get two_users 2 = Some bob_task"
    by simp
  have o: "user_id bob_task \<noteq> ''alice''"
    by (simp add: bob_task_def)
  from get_task_foreign_owner_not_found [OF g o] g o show ?thesis
    by blast
qed

text \<open>
  Claim C3. In every task endpoint, with token subject \<open>A\<close> and path user \<open>B\<close>: if
  \<open>A \<noteq> B\<close> the handler raises 403 and leaves the table as it was; if \<open>A = B\<close> no
  handler answers 403 and the operation acts as \<open>A\<close>: the listing is exactly \<open>A\<close>'s
  rows, the created task is owned by \<open>A\<close>, every task returned by get, update or
  toggle is owned by \<open>A\<close>, and a delete that succeeds removed a task owned by \<open>A\<close>.
\<close>

theorem authorization_step:
  "(A \<noteq> B \<longrightarrow>
      list_tasks B A s = Inl (HTTPException 403 ''Unauthorized access to user's tasks'') \<and>
      create_task B task A now now' s = (Inl (HTTPException 403 ''Unauthorized access''), s) \<and>
      get_task B task_id A s = Inl (HTTPException 403 ''Unauthorized access'') \<and>
      update_task B task_id task_update A now s =
        (Inl (HTTPException 403 ''Unauthorized access''), s) \<and>
      delete_task B task_id A s = (Inl (HTTPException 403 ''Unauthorized access''), s) \<and>
      toggle_complete B task_id A now s =
        (Inl (HTTPException 403 ''Unauthorized access''), s)) \<and>
   (A = B \<longrightarrow>
      list_tasks B A s = Inr (filter (\<lambda>r. user_id r = A) (table s)) \<and>
      (\<exists>t. fst (create_task B task A now now' s) = Inr t \<and> user_id t = A) \<and>
      response_status 200 (get_task B task_id A s) \<noteq> 403 \<and>
      response_status 200 (fst (update_task B task_id task_update A now s)) \<noteq> 403 \<and>
      response_status 204 (fst (delete_task B task_id A s)) \<noteq> 403 \<and>
      response_status 200 (fst (toggle_complete B task_id A now s)) \<noteq> 403 \<and>
      (\<forall>t. get_task B task_id A s = Inr t \<longrightarrow> user_id t = A) \<and>
      (\<forall>t. fst (update_task B task_id task_update A now s) = Inr t \<longrightarrow> user_id t = A) \<and>
      (\<forall>t. fst (toggle_complete B task_id A now s) = Inr t \<longrightarrow> user_id t = A) \<and>
      (fst (delete_task B task_id A s) = Inr () \<longrightarrow>
         (\<exists>t. session_get s task_id = Some t \<and> user_id t = A)))"
proof (intro conjI impI)
  assume ne: "A \<noteq> B"
  then have ne': "B \<noteq> A"
    by blast
  show "list_tasks B A s = Inl (HTTPException 403 ''Unauthorized access to user's tasks'')"
    using ne' by (simp add: list_tasks_def)
  show "create_task B task A now now' s = (Inl (HTTPException 403 ''Unauthorized access''), s)"
    using ne' by (simp add: create_task_def)
  show "get_task B task_id A s = Inl (HTTPException 403 ''Unauthorized access'')"
    using ne' by (simp add: get_task_def)
  show "update_task B task_id task_update A now s =
          (Inl (HTTPException 403 ''Unauthorized access''), s)"
    using ne' by (simp add: update_task_def)
  show "delete_task B task_id A s = (Inl (HTTPException 403 ''Unauthorized access''), s)"
    using ne' by (simp add: delete_task_def)
  show "toggle_complete B task_id A now s =
          (Inl (HTTPException 403 ''Unauthorized access''), s)"
    using ne' by (simp add: toggle_complete_def)
next
  assume eq: "A = B"
  show "list_tasks B A s = Inr (filter (\<lambda>r. user_id r = A) (table s))"
    using eq by (simp add: list_tasks_def)
  show "\<exists>t. fst (create_task B task A now now' s) = Inr t \<and> user_id t = A"
    using eq by (simp add: create_task_def session_insert_def Let_def)
  show "response_status 200 (get_task B task_id A s) \<noteq> 403"
    using eq by (simp add: get_task_def response_status_def split: option.split)
  show "response_status 200 (fst (update_task B task_id task_update A now s)) \<noteq> 403"
    using eq
    by (auto simp add: update_task_def response_status_def Let_def
          split: option.split sum.split dest: setattr_all_no_http)
  show "response_status 204 (fst (delete_task B task_id A s)) \<noteq> 403"
    using eq by (simp add: delete_task_def response_status_def split: option.split)
  show "response_status 200 (fst (toggle_complete B task_id A now s)) \<noteq> 403"
    using eq by (simp add: toggle_complete_def response_status_def Let_def split: option.split)
  show "\<forall>t. get_task B task_id A s = Inr t \<longrightarrow> user_id t = A"
    using eq by (auto simp add: get_task_def split: option.splits if_splits)
  show "\<forall>t. fst (update_task B task_id task_update A now s) = Inr t \<longrightarrow> user_id t = A"
    using eq
    by (auto simp add: update_task_def Let_def
          split: option.splits if_splits sum.splits dest: setattr_all_user_id)
  show "\<forall>t. fst (toggle_complete B task_id A now s) = Inr t \<longrightarrow> user_id t = A"
    using eq by (auto simp add: toggle_complete_def Let_def split: option.splits if_splits)
  show "\<exists>t. session_get s task_id = Some t \<and> user_id t = A"
    if "fst (delete_task B task_id A s) = Inr ()"
    using that eq by (auto simp add: delete_task_def split: option.splits if_splits)
qed

theorem authorization_step_witness:
  "''alice'' \<noteq> ''bob'' \<and>
   list_tasks ''bob'' ''alice'' two_users =
     Inl (HTTPException 403 ''Unauthorized access to user's tasks'') \<and>
   get_task ''bob'' 2 ''alice'' two_users = Inl (HTTPException 403 ''Unauthorized access'') \<and>
   delete_task ''bob'' 2 ''alice'' two_users =
     (Inl (HTTPException 403 ''Unauthorized access''), two_users) \<and>
   list_tasks ''alice'' ''alice'' two_users = Inr [alice_task] \<and>
   response_status 200 (get_task ''alice'' 1 ''alice'' two_users) \<noteq> 403 \<and>
   get_task ''alice'' 1 ''alice'' two_users = Inr alice_task \<and>
   user_id alice_task = ''alice'' \<and>
   fst (delete_task ''alice'' 1 ''alice'' two_users) = Inr () \<and>
   (\<exists>t. session_get two_users 1 = Some t \<and> user_id t = ''alice'')"
proof -
  have ne: "''alice'' \<noteq> ''bob''"
    by simp
  have rows: "filter (\<lambda>r. user_id r = ''alice'') (table two_users) = [alice_task]"
    by (simp add: two_users_def alice_task_def bob_task_def)
  have got: "get_task ''alice'' 1 ''alice'' two_users = Inr alice_task"
    by (simp add: get_task_def alice_task_def)
  have deleted: "fst (delete_task ''alice'' 1 ''alice'' two_users) = Inr ()"
    by (simp add: delete_task_def alice_task_def)
  from authorization_step [of "''alice''" "''bob''" two_users _ _ _ 2] ne
  have denied:
    "list_tasks ''bob'' ''alice'' two_users =
       Inl (HTTPException 403 ''Unauthorized access to user's tasks'') \<and>
     get_task ''bob'' 2 ''alice'' two_users = Inl (HTTPException 403 ''Unauthorized access'') \<and>
     delete_task ''bob'' 2 ''alice'' two_users =
       (Inl (HTTPException 403 ''Unauthorized access''), two_users)"
    by blast
  from authorization_step [of "''alice''" "''alice''" two_users _ _ _ 1] rows
  have listed: "list_tasks ''alice'' ''alice'' two_users = Inr [alice_task]"
    by simp
  from authorization_step [of "''alice''" "''alice''" two_users _ _ _ 1]
  have granted: "response_status 200 (get_task ''alice'' 1 ''alice'' two_users) \<noteq> 403"
    by blast
  from authorization_step [of "''alice''" "''alice''" two_users _ _ _ 1] got
  have owner: "user_id alice_task = ''alice''"
    by blast
  from authorization_step [of "''alice''" "''alice''" two_users _ _ _ 1] deleted
  have removed: "\<exists>t. session_get two_users 1 = Some t \<and> user_id t = ''alice''"
    by blast
  from ne denied listed granted got owner deleted removed show ?thesis
    by blast
qed

text \<open>
  Claim C4, as stated, fails: the handler builds the row from the whole body,
  \<open>Task(**task.model_dump(), user_id=user_id)\<close>, so a body with \<open>completed = true\<close>
  creates a task that is already completed.
\<close>

theorem create_task_completed_counterexample:
  "fst (create_task ''alice'' (TaskCreate ''done already'' None (Some True)) ''alice'' 300 301
         no_tasks) =
     Inr \<lparr>title = ''done already'', description = None, completed = True,
           id' = Some 1, user_id = ''alice'', created_at = 300, updated_at = 301\<rparr>"
  by (simp add: create_task_def TaskCreate_def session_insert_def no_tasks_def Let_def)

text \<open>
  Claim C4, amended. Every creation with matching identities succeeds, and the stored
  task has the title and description of the body, \<open>completed\<close> as the body gives it
  (false when the body omits it), the verified identity as owner, the next primary key,
  and \<open>created_at\<close> and \<open>updated_at\<close> set to the clock readings taken while the row is
  built; the row is appended to the table.
\<close>

theorem create_task_initial_fields:
  "create_task U (TaskCreate ti de co) U now_created now_updated s =
     (Inr \<lparr>title = ti, description = de,
            completed = (case co of None \<Rightarrow> False | Some b \<Rightarrow> b),
            id' = Some (next_id s), user_id = U,
            created_at = now_created, updated_at = now_updated\<rparr>,
      s\<lparr>table := table s @
            [\<lparr>title = ti, description = de,
              completed = (case co of None \<Rightarrow> False | Some b \<Rightarrow> b),
              id' = Some (next_id s), user_id = U,
              created_at = now_created, updated_at = now_updated\<rparr>],
         next_id := next_id s + 1\<rparr>)"
  by (simp add: create_task_def TaskCreate_def session_insert_def Let_def)

text \<open>
  Claim C8, as stated, fails in its last part: a toggle stores the clock reading it
  takes, whatever the stored stamp is. When the reading equals the stored \<open>updated_at\<close>
  (two readings within the clock's resolution) the stamp does not increase.
\<close>

theorem toggle_complete_same_clock_counterexample:
  "session_get two_users 1 = Some alice_task \<and> user_id alice_task = ''alice'' \<and>
   fst (toggle_complete ''alice'' 1 ''alice'' 100 two_users) =
     Inr (alice_task\<lparr>completed := True, updated_at := 100\<rparr>) \<and>
   \<not> updated_at alice_task < updated_at (alice_task\<lparr>completed := True, updated_at := 100\<rparr>)"
  by (simp add: toggle_complete_def alice_task_def Let_def)

text \<open>
  Claim C8, amended. For every existing owned task, a toggle succeeds, negates
  \<open>completed\<close>, sets \<open>updated_at\<close> to the clock reading of that toggle and stores the
  result; a second toggle returns the task to its original state except for the stamp,
  which is the second reading. The stamp increases strictly exactly when the reading is
  later than the stored stamp.
\<close>

theorem toggle_complete_twice:
  assumes "session_get s task_id = Some t" and "user_id t = U"
  shows "toggle_complete U task_id U now s =
           (Inr (t\<lparr>completed := \<not> completed t, updated_at := now\<rparr>),
            session_update s (t\<lparr>completed := \<not> completed t, updated_at := now\<rparr>)) \<and>
         session_get (session_update s (t\<lparr>completed := \<not> completed t, updated_at := now\<rparr>))
             task_id =
           Some (t\<lparr>completed := \<not> completed t, updated_at := now\<rparr>) \<and>
         fst (toggle_complete U task_id U now'
               (snd (toggle_complete U task_id U now s))) =
           Inr (t\<lparr>updated_at := now'\<rparr>) \<and>
         (updated_at t < updated_at (t\<lparr>completed := \<not> completed t, updated_at := now\<rparr>)
            \<longleftrightarrow> updated_at t < now)"
proof -
  let ?t1 = "t\<lparr>completed := \<not> completed t, updated_at := now\<rparr>"
  let ?s1 = "session_update s ?t1"
  have first: "toggle_complete U task_id U now s = (Inr ?t1, ?s1)"
    using assms by (simp add: toggle_complete_def Let_def)
  have stored: "session_get ?s1 task_id = Some ?t1"
    using assms(1) by (rule session_get_update) simp
  have "toggle_complete U task_id U now' ?s1 =
          (Inr (?t1\<lparr>completed := \<not> completed ?t1, updated_at := now'\<rparr>),
           session_update ?s1 (?t1\<lparr>completed := \<not> completed ?t1, updated_at := now'\<rparr>))"
    using stored assms(2) by (simp add: toggle_complete_def Let_def)
  then have second: "fst (toggle_complete U task_id U now' ?s1) = Inr (t\<lparr>updated_at := now'\<rparr>)"
    by simp
  show ?thesis
    using first stored second by simp
qed

theorem toggle_complete_twice_witness:
  "session_get two_users 2 = Some bob_task \<and> user_id bob_task = ''bob'' \<and>
   fst (toggle_complete ''bob'' 2 ''bob'' 300 two_users) =
     Inr (bob_task\<lparr>completed := \<not> completed bob_task, updated_at := 300\<rparr>) \<and>
   fst (toggle_complete ''bob'' 2 ''bob'' 400
         (snd (toggle_complete ''bob'' 2 ''bob'' 300 two_users))) =
     Inr (bob_task\<lparr>updated_at := 400\<rparr>) \<and>
   updated_at bob_task <
     updated_at (bob_task\<lparr>completed := \<not> completed bob_task, updated_at := 300\<rparr>)"
proof -
  have g: "session_get two_users 2 = Some bob_task"
    by simp
  have o: "user_id bob_task = ''bob''"
    by (simp add: bob_task_def)
  have u: "updated_at bob_task < 300"
    by (simp add: bob_task_def)
  have f: "fst (toggle_complete ''bob'' 2 ''bob'' 300 two_users) =
      Inr (bob_task\<lparr>completed := \<not> completed bob_task, updated_at := 300\<rparr>)"
    using toggle_complete_twice [OF g o, of 300 400] by (metis fst_conv)
  from toggle_complete_twice [OF g o, of 300 400] g o u f show ?thesis
    by blast
qed



text \<open>
  Claim C10. In get, update, delete and toggle-complete the comparison of the path user
  with the token's subject comes first: when they differ the handler raises 403 whatever
  the table holds, in particular when no task has the requested id, and the table is
  left as it was.
\<close>

theorem forbidden_before_lookup:
  assumes "user_id' \<noteq> current_user_id"
  shows "get_task user_id' task_id current_user_id s =
           Inl (HTTPException 403 ''Unauthorized access'') \<and>
         update_task user_id' task_id task_update current_user_id now s =
           (Inl (HTTPException 403 ''Unauthorized access''), s) \<and>
         delete_task user_id' task_id current_user_id s =
           (Inl (HTTPException 403 ''Unauthorized access''), s) \<and>
         toggle_complete user_id' task_id current_user_id now s =
           (Inl (HTTPException 403 ''Unauthorized access''), s)"
  using assms
  by (simp add: get_task_def update_task_def delete_task_def toggle_complete_def)

theorem forbidden_before_lookup_witness:
  "''mallory'' \<noteq> ''alice'' \<and> session_get no_tasks 7 = None \<and>
   get_task ''mallory'' 7 ''alice'' no_tasks =
     Inl (HTTPException 403 ''Unauthorized access'') \<and>
   update_task ''mallory'' 7 \<lparr>title_upd = Unset, description_upd = Unset, completed_upd = Unset\<rparr>
       ''alice'' 0 no_tasks =
     (Inl (HTTPException 403 ''Unauthorized access''), no_tasks) \<and>
   delete_task ''mallory'' 7 ''alice'' no_tasks =
     (Inl (HTTPException 403 ''Unauthorized access''), no_tasks) \<and>
   toggle_complete ''mallory'' 7 ''alice'' 0 no_tasks =
     (Inl (HTTPException 403 ''Unauthorized access''), no_tasks)"
proof -
  have d: "''mallory'' \<noteq> ''alice''"
    by simp
  have n: "session_get no_tasks 7 = None"
    by (simp add: session_get_def no_tasks_def)
  from forbidden_before_lookup [OF d] d n show ?thesis
    by blast
qed

section \<open>Properties of the base64 codec\<close>


















text \<open>The only exceptions of the decoder.\<close>

lemma a2b_base64_loop_error:
  "a2b_base64_loop xs quad_pos leftchar pads bin_data = Inl e \<Longrightarrow> e = BinasciiError"
  by (induction xs quad_pos leftchar pads bin_data rule: a2b_base64_loop.induct)
     (auto simp add: Let_def split: if_splits)

lemma b64decode_error: "b64decode s = Inl e \<Longrightarrow> e = ValueError \<or> e = BinasciiError"
  by (auto simp add: b64decode_def a2b_base64_def split: sum.splits dest: a2b_base64_loop_error)

section \<open>Properties of \<open>str.split\<close>\<close>



section \<open>Properties of the UTF-8 encoder\<close>








lemma encode_utf8_error: "encode_utf8 s = Inl e \<Longrightarrow> e = UnicodeEncodeError"
  by (induction s) (auto simp add: utf8_code_point_def split: if_splits sum.splits)

section \<open>Properties of \<open>hash_password\<close> and \<open>verify_password\<close>\<close>






lemma verify_password_body_error:
  "verify_password_body kdf Q h = Inl e \<Longrightarrow> isinstance_ValueError e"
  by (auto simp add: verify_password_body_def Let_def
        split: list.splits sum.splits dest: encode_utf8_error b64decode_error)



text \<open>
  Claim C6. \<open>verify_password\<close> never raises: it returns a boolean for every candidate
  and every stored string. When the stored string does not split into exactly two parts
  at \<open>$\<close>, or one of the two parts fails to decode as base64, it returns false.
\<close>

theorem verify_password_fail_closed:
  "(\<exists>b. verify_password pbkdf2_hmac plain_password hashed_password = Inr b) \<and>
   (length (split hashed_password 0x24) \<noteq> 2 \<longrightarrow>
      verify_password pbkdf2_hmac plain_password hashed_password = Inr False) \<and>
   (\<forall>salt_b64 hash_b64 e.
      split hashed_password 0x24 = [salt_b64, hash_b64] \<and>
      (b64decode salt_b64 = Inl e \<or> b64decode hash_b64 = Inl e) \<longrightarrow>
      verify_password pbkdf2_hmac plain_password hashed_password = Inr False)"
proof (intro conjI allI impI)
  show "\<exists>b. verify_password pbkdf2_hmac plain_password hashed_password = Inr b"
    by (cases "verify_password_body pbkdf2_hmac plain_password hashed_password")
       (auto simp add: verify_password_def dest: verify_password_body_error)
next
  assume "length (split hashed_password 0x24) \<noteq> 2"
  then have "verify_password_body pbkdf2_hmac plain_password hashed_password = Inl ValueError"
    by (auto simp add: verify_password_body_def split: list.splits)
  then show "verify_password pbkdf2_hmac plain_password hashed_password = Inr False"
    by (simp add: verify_password_def)
next
  fix salt_b64 hash_b64 e
  assume "split hashed_password 0x24 = [salt_b64, hash_b64] \<and>
      (b64decode salt_b64 = Inl e \<or> b64decode hash_b64 = Inl e)"
  then have "\<exists>e'. verify_password_body pbkdf2_hmac plain_password hashed_password = Inl e'"
    by (auto simp add: verify_password_body_def split: sum.splits)
  then show "verify_password pbkdf2_hmac plain_password hashed_password = Inr False"
    by (auto simp add: verify_password_def dest: verify_password_body_error)
qed

theorem verify_password_fail_closed_witness:
  "length (split (str ''not-a-hash'') 0x24) \<noteq> 2 \<and>
   verify_password toy_kdf (str ''pw'') (str ''not-a-hash'') = Inr False \<and>
   split (str ''AQID$a'') 0x24 = [str ''AQID'', str ''a''] \<and>
   b64decode (str ''a'') = Inl BinasciiError \<and>
   verify_password toy_kdf (str ''pw'') (str ''AQID$a'') = Inr False"
proof -
  have parts: "length (split (str ''not-a-hash'') 0x24) \<noteq> 2"
    by code_simp
  have two: "split (str ''AQID$a'') 0x24 = [str ''AQID'', str ''a'']"
    by code_simp
  have bad: "b64decode (str ''a'') = Inl BinasciiError"
    by code_simp
  from verify_password_fail_closed [of toy_kdf "str ''pw''" "str ''not-a-hash''"] parts
  have first: "verify_password toy_kdf (str ''pw'') (str ''not-a-hash'') = Inr False"
    by blast
  from verify_password_fail_closed [of toy_kdf "str ''pw''" "str ''AQID$a''"] two bad
  have second: "verify_password toy_kdf (str ''pw'') (str ''AQID$a'') = Inr False"
    by blast
  from parts first two bad second show ?thesis
    by blast
qed

section \<open>Properties of the session tokens\<close>





end
